theory Spec2Isabelle
  imports Complex_Main "HOL-Library.Sublist" "HOL-Library.Multiset"
begin

section \<open>Text and errors\<close>

text \<open>
  Text is a list of bytes holding the UTF-8 encoding of the source's strings, so equality,
  prefix and substring tests agree with those on code points. The two non-ASCII letters that
  occur in the program's literals and in the sample inputs are written out as byte pairs.
\<close>

definition i_acute :: string where
  "i_acute = [CHR 0xC3, CHR 0xAD]"

definition n_tilde :: string where
  "n_tilde = [CHR 0xC3, CHR 0xB1]"

definition newline :: char where
  "newline = CHR 0x0A"

text \<open>The exceptions that the modelled functions can raise.\<close>

datatype error =
    ColumnNotFoundError
  | SchemaError
  | FileNotFoundError
  | IndexError
  | ValueError
  | TypeError
  | KeyError
  | OSError

section \<open>String kernels of the data-frame library\<close>

text \<open>
  Lower-casing (\<open>str.to_lowercase\<close> of the columnar library, \<open>str.lower\<close> of the language)
  for code points up to U+00FF, which is all that a file decoded as ISO-8859-1 can hold: the
  ASCII capitals and the capitals U+00C0 to U+00DE, the multiplication sign U+00D7 excepted,
  move to the letter 32 places on. In UTF-8 the latter are the byte pairs \<open>C3 80\<close> to
  \<open>C3 9E\<close>. Other bytes stay.
\<close>

definition lower_char :: "char \<Rightarrow> char" where
  "lower_char c =
     (case map_of (zip ''ABCDEFGHIJKLMNOPQRSTUVWXYZ'' ''abcdefghijklmnopqrstuvwxyz'') c of
        Some d \<Rightarrow> d
      | None \<Rightarrow> c)"

definition upper_latin :: "char \<Rightarrow> bool" where
  "upper_latin b =
     (0x80 \<le> (of_char b :: nat) \<and> (of_char b :: nat) \<le> 0x9E \<and> b \<noteq> CHR 0x97)"

fun to_lowercase :: "string \<Rightarrow> string" where
  "to_lowercase [] = []"
| "to_lowercase [c] = [lower_char c]"
| "to_lowercase (c # b # cs) =
     (if c = CHR 0xC3 \<and> upper_latin b
      then c # char_of (of_char b + (0x20 :: nat)) # to_lowercase cs
      else lower_char c # to_lowercase (b # cs))"

text \<open>
  \<open>str.replace_many(patterns, replace_with)\<close> scans the text once with a multi-pattern
  automaton and replaces non-overlapping occurrences: the occurrence that ends first is
  taken (the longest pattern among those ending there), its replacement is emitted, and the
  scan starts afresh behind it. \<open>buf\<close> holds the bytes read since the last replacement.
  Empty patterns are never matched. Both literal lists of the program have equal lengths, so
  the pairing is by position.
\<close>

fun suffix_match :: "(string \<times> string) list \<Rightarrow> string \<Rightarrow> (string \<times> string) option" where
  "suffix_match [] buf = None"
| "suffix_match ((p, r) # prs) buf =
     (let later = suffix_match prs buf in
      if p \<noteq> [] \<and> suffix p buf then
        (case later of
           None \<Rightarrow> Some (p, r)
         | Some (q, s) \<Rightarrow> if length p < length q then Some (q, s) else Some (p, r))
      else later)"

fun replace_scan :: "(string \<times> string) list \<Rightarrow> string \<Rightarrow> string \<Rightarrow> string" where
  "replace_scan prs buf [] = buf"
| "replace_scan prs buf (c # cs) =
     (case suffix_match prs (buf @ [c]) of
        None \<Rightarrow> replace_scan prs (buf @ [c]) cs
      | Some (p, r) \<Rightarrow> take (length (buf @ [c]) - length p) (buf @ [c]) @ r @ replace_scan prs [] cs)"

definition replace_many :: "string list \<Rightarrow> string list \<Rightarrow> string \<Rightarrow> string" where
  "replace_many patterns replace_with s = replace_scan (zip patterns replace_with) [] s"

text \<open>
  \<open>str.replace(pattern, value)\<close> replaces the first match of a regular expression. The two
  patterns of the program are a literal followed by \<open>.*\<close>: the first occurrence of the
  literal, together with everything behind it up to the end of the line, is replaced.
\<close>

fun str_replace_dotstar :: "string \<Rightarrow> string \<Rightarrow> string \<Rightarrow> string" where
  "str_replace_dotstar lit v [] = (if lit = [] then v else [])"
| "str_replace_dotstar lit v (c # cs) =
     (if prefix lit (c # cs)
      then v @ dropWhile (\<lambda>x. x \<noteq> newline) (drop (length lit) (c # cs))
      else c # str_replace_dotstar lit v cs)"

text \<open>
  \<open>cast(pl.Int64, strict=False)\<close> on text: an optional sign and at least one decimal digit,
  within the signed 64-bit range; anything else becomes null.
\<close>

definition digit_val :: "char \<Rightarrow> int option" where
  "digit_val c = map_of (zip ''0123456789'' [0, 1, 2, 3, 4, 5, 6, 7, 8, 9]) c"

fun digits_val :: "int \<Rightarrow> string \<Rightarrow> int option" where
  "digits_val acc [] = Some acc"
| "digits_val acc (c # cs) =
     (case digit_val c of None \<Rightarrow> None | Some d \<Rightarrow> digits_val (10 * acc + d) cs)"

definition in_int64 :: "int \<Rightarrow> int option" where
  "in_int64 n = (if - (2 ^ 63) \<le> n \<and> n < 2 ^ 63 then Some n else None)"

definition parse_int64 :: "string \<Rightarrow> int option" where
  "parse_int64 s =
     (case s of
        [] \<Rightarrow> None
      | c # cs \<Rightarrow>
          if c = CHR ''-'' then
            (if cs = [] then None
             else case digits_val 0 cs of None \<Rightarrow> None | Some n \<Rightarrow> in_int64 (- n))
          else if c = CHR ''+'' then
            (if cs = [] then None
             else case digits_val 0 cs of None \<Rightarrow> None | Some n \<Rightarrow> in_int64 n)
          else (case digits_val 0 s of None \<Rightarrow> None | Some n \<Rightarrow> in_int64 n))"

definition cast_int64 :: "string option \<Rightarrow> int option" where
  "cast_int64 v = (case v of None \<Rightarrow> None | Some s \<Rightarrow> parse_int64 s)"

text \<open>\<open>str(i)\<close> for a natural number.\<close>

fun str_nat :: "nat \<Rightarrow> string" where
  "str_nat n =
     (if n < 10 then [''0123456789'' ! n]
      else str_nat (n div 10) @ [''0123456789'' ! (n mod 10)])"

declare str_nat.simps [simp del]

section \<open>Typed frames\<close>

text \<open>
  A frame of the columnar library is an ordered list of named, typed columns; a cell of
  either type may be null. Only the two column types that the translations read and write
  are modelled.
\<close>

datatype series = Utf8 "string option list" | Int64 "int option list"

type_synonym frame = "(string \<times> series) list"

datatype message = Line string | Show frame

fun with_column :: "string \<Rightarrow> series \<Rightarrow> frame \<Rightarrow> frame" where
  "with_column name s [] = [(name, s)]"
| "with_column name s ((n, t) # cols) =
     (if n = name then (n, s) # cols else (n, t) # with_column name s cols)"

text \<open>
  An expression \<open>pl.col(name).str. ...\<close> needs the column to exist and to hold text.
\<close>

definition col_str :: "frame \<Rightarrow> string \<Rightarrow> error + string option list" where
  "col_str pl_df name =
     (case map_of pl_df name of
        None \<Rightarrow> Inl ColumnNotFoundError
      | Some (Int64 xs) \<Rightarrow> Inl SchemaError
      | Some (Utf8 xs) \<Rightarrow> Inr xs)"

section \<open>Month translation\<close>

definition months_spanish :: "string list" where
  "months_spanish =
     [''enero'', ''febrero'', ''marzo'', ''abril'', ''mayo'', ''junio'', ''julio'',
      ''agosto'', ''septiembre'', ''octubre'', ''noviembre'', ''diciembre'']"

definition months_english :: "string list" where
  "months_english =
     [''January'', ''February'', ''March'', ''April'', ''May'', ''June'', ''July'',
      ''August'', ''September'', ''October'', ''November'', ''December'']"

definition numbers :: "string list" where
  "numbers = map str_nat [1..<13]"

text \<open>The value of one cell of \<open>mes\<close> after the three column expressions.\<close>

definition month_cell :: "string option \<Rightarrow> int option" where
  "month_cell v =
     cast_int64
       (map_option (replace_many months_english numbers)
          (map_option (replace_many months_spanish months_english \<circ> to_lowercase) v))"

text \<open>
  \<open>translate_months\<close>: the column \<open>mes\<close> is overwritten in three steps; afterwards the rows
  whose \<open>mes\<close> is null are filtered out of the overwritten frame, their column \<open>mes\<close> is
  selected and reduced to its distinct values, and when that frame has a row, a heading
  line and the frame are printed. The result is the new frame and what was printed.
\<close>

definition translate_months :: "frame \<Rightarrow> error + (frame \<times> message list)" where
  "translate_months pl_df =
     (case col_str pl_df ''mes'' of
        Inl e \<Rightarrow> Inl e
      | Inr xs \<Rightarrow>
          (let mes = map month_cell xs;
               pl_df' = with_column ''mes'' (Int64 mes) pl_df;
               invalid_months = remdups (filter (\<lambda>v. v = None) mes)
           in Inr (pl_df',
                   if 0 < length invalid_months
                   then [Line ''Values in 'mes' that couldn't be converted to integers:'',
                         Show [(''mes'', Int64 invalid_months)]]
                   else [])))"

section \<open>Damage-level translation\<close>

definition damage_cell :: "string option \<Rightarrow> int option" where
  "damage_cell v =
     cast_int64
       (map_option
          (str_replace_dotstar ''1'' ''1''
           \<circ> replace_many [''Low'', ''High'', ''Medium'', ''No damage''] [''2'', ''4'', ''3'', ''1'']
           \<circ> str_replace_dotstar ''No damage'' ''No damage''
           \<circ> replace_many [''Bajo'', ''Alto'', ''Medio'', ''Sin ''] [''Low'', ''High'', ''Medium'', ''No damage''])
          v)"

definition process_damage_levels :: "frame \<Rightarrow> error + frame" where
  "process_damage_levels pl_df =
     (case col_str pl_df ''nivel_dano_vehiculo'' of
        Inl e \<Rightarrow> Inl e
      | Inr xs \<Rightarrow> Inr (with_column ''nivel_dano_vehiculo'' (Int64 (map damage_cell xs)) pl_df))"

section \<open>Row-oriented tables\<close>

text \<open>
  A table of the row-oriented library: the ordered column labels and the rows, each row
  holding one cell per label. A cell is missing (\<open>NaN\<close>), a text or a number; a number is
  kept by its exact value, or is one of the two infinities. The row count
  \<open>shape[0]\<close> is the number of rows, also for a table without columns. The library
  admits repeated labels; what selection and concatenation do with them is not modelled, and
  the statements about projection are made for tables that satisfy \<open>wf_table\<close>.
\<close>

datatype number = Finite rat | PosInf | NegInf

datatype cell = NaN | Str string | Num number

record table =
  columns :: "string list"
  rows :: "cell list list"

definition wf_table :: "table \<Rightarrow> bool" where
  "wf_table df =
     (distinct (columns df) \<and> list_all (\<lambda>r. length r = length (columns df)) (rows df))"

definition shape0 :: "table \<Rightarrow> nat" where
  "shape0 df = length (rows df)"

definition is_empty :: "table \<Rightarrow> bool" where
  "is_empty df = (rows df = [] \<or> columns df = [])"

text \<open>The cell of a row under a label; a label the row does not have gives \<open>NaN\<close>.\<close>

definition cell_at :: "string list \<Rightarrow> cell list \<Rightarrow> string \<Rightarrow> cell" where
  "cell_at cols r c = (case map_of (zip cols r) c of Some v \<Rightarrow> v | None \<Rightarrow> NaN)"

definition reindex_row :: "string list \<Rightarrow> string list \<Rightarrow> cell list \<Rightarrow> cell list" where
  "reindex_row cols cs r = map (cell_at cols r) cs"

section \<open>Column normalizer\<close>

text \<open>
  Python's \<open>s.replace(old, new)\<close>: every non-overlapping occurrence, from the left.
\<close>

fun py_replace_go :: "string \<Rightarrow> string \<Rightarrow> nat \<Rightarrow> string \<Rightarrow> string" where
  "py_replace_go old new k [] = []"
| "py_replace_go old new (Suc k) (c # cs) = py_replace_go old new k cs"
| "py_replace_go old new 0 (c # cs) =
     (if prefix old (c # cs) then new @ py_replace_go old new (length old - 1) cs
      else c # py_replace_go old new 0 cs)"

definition py_replace :: "string \<Rightarrow> string \<Rightarrow> string \<Rightarrow> string" where
  "py_replace old new s =
     (if old = [] then new @ concat (map (\<lambda>c. c # new) s) else py_replace_go old new 0 s)"

definition column_renames :: "(string \<times> string) list" where
  "column_renames =
     [(''daa_numero'', ''dia_numero''),
      (''aao'', ''ano''),
      (''nivel_daao_vehiculo'', ''nivel_dano_vehiculo''),
      (''causa_siniestro'', ''tipo_de_percance''),
      (''punto_de_impacto'', ''punto_impacto''),
      (''ciudad'', ''ciudad_municipio''),
      (''lesionados'', ''total_lesionados''),
      (''relacion_lesionados'', ''rol_lesionado''),
      (''nivel_lesionados'', ''nivel_lesion''),
      (''obra_civil'', ''dano_obra_civil''),
      (''fuga'', ''tercero_fuga''),
      (''seguro'', ''aseguradora''),
      (''taxi'', ''servicio_taxi'')]"

definition rename_column :: "string \<Rightarrow> string" where
  "rename_column c = (case map_of column_renames c of Some d \<Rightarrow> d | None \<Rightarrow> c)"

text \<open>
  \<open>clean_column_names\<close> assigns the label list three times and touches nothing else. The
  transliteration table of \<open>unidecode\<close> is a parameter.
\<close>

definition clean_column_names :: "(string \<Rightarrow> string) \<Rightarrow> table \<Rightarrow> table" where
  "clean_column_names unidecode df =
     (let df1 = df\<lparr>columns := map (\<lambda>col. unidecode (py_replace '' '' ''_'' (to_lowercase col))) (columns df)\<rparr>;
          df2 = df1\<lparr>columns := map (py_replace ''_reporte'' []) (columns df1)\<rparr>
      in df2\<lparr>columns := map rename_column (columns df2)\<rparr>)"

definition assign_nan :: "string \<Rightarrow> table \<Rightarrow> table" where
  "assign_nan name df = \<lparr>columns = columns df @ [name], rows = map (\<lambda>r. r @ [NaN]) (rows df)\<rparr>"

definition add_missing_columns :: "table \<Rightarrow> table" where
  "add_missing_columns df =
     (let df1 = (if ''rol_lesionado'' \<notin> set (columns df) then assign_nan ''rol_lesionado'' df else df)
      in if ''nivel_lesion'' \<notin> set (columns df1) then assign_nan ''nivel_lesion'' df1 else df1)"

section \<open>Schema reconciler\<close>

text \<open>
  \<open>get_common_columns\<close> turns the intersection of the label sets into a list. The
  iteration order of a set is not fixed by the language, so the function is modelled as the
  relation between the tables and each result it may give: without tables the call of
  \<open>set.intersection\<close> has no argument and raises; otherwise any duplicate-free listing of
  the intersection can come back.
\<close>

definition common_column_set :: "table list \<Rightarrow> string set" where
  "common_column_set dfs = (\<Inter>df \<in> set dfs. set (columns df))"

definition get_common_columns :: "table list \<Rightarrow> error + string list \<Rightarrow> bool" where
  "get_common_columns dfs res =
     (case res of
        Inl e \<Rightarrow> dfs = [] \<and> e = TypeError
      | Inr cs \<Rightarrow> dfs \<noteq> [] \<and> distinct cs \<and> set cs = common_column_set dfs)"

text \<open>\<open>df[common_columns]\<close>: a label that the table lacks raises.\<close>

definition project :: "string list \<Rightarrow> table \<Rightarrow> error + table" where
  "project cs df =
     (if set cs \<subseteq> set (columns df)
      then Inr \<lparr>columns = cs, rows = map (reindex_row (columns df) cs) (rows df)\<rparr>
      else Inl KeyError)"

text \<open>
  \<open>pd.concat(frames, ignore_index=True)\<close>: no frames raise; otherwise the labels are the
  union in order of first appearance, and the rows of the frames follow each other, each
  laid out under the union with \<open>NaN\<close> where its frame has no such label.
\<close>

fun union_labels :: "string list \<Rightarrow> string list \<Rightarrow> string list" where
  "union_labels acc [] = acc"
| "union_labels acc (c # cs) =
     (if c \<in> set acc then union_labels acc cs else union_labels (acc @ [c]) cs)"

definition pd_concat :: "table list \<Rightarrow> error + table" where
  "pd_concat frames =
     (if frames = [] then Inl ValueError
      else (let cols = fold (\<lambda>df acc. union_labels acc (columns df)) frames []
            in Inr \<lparr>columns = cols,
                    rows = concat (map (\<lambda>df. map (reindex_row (columns df) cols) (rows df)) frames)\<rparr>))"

fun sequence :: "(error + 'a) list \<Rightarrow> error + 'a list" where
  "sequence [] = Inr []"
| "sequence (Inl e # xs) = Inl e"
| "sequence (Inr x # xs) = (case sequence xs of Inl e \<Rightarrow> Inl e | Inr ys \<Rightarrow> Inr (x # ys))"

text \<open>
  The part of \<open>process_and_clean_data\<close> behind the file reads. Its inputs are what the reads
  returned (the table of the header-less files and the tables of the files with headers)
  and the outcome \<open>common\<close> of \<open>get_common_columns\<close> on the normalized tables.
\<close>

definition normalized_tables :: "(string \<Rightarrow> string) \<Rightarrow> table \<Rightarrow> table list \<Rightarrow> table list" where
  "normalized_tables unidecode df_without_headers dfs_with_headers =
     (let all_dfs = (if \<not> is_empty df_without_headers
                     then [df_without_headers] @ dfs_with_headers
                     else dfs_with_headers);
          all_dfs = map (clean_column_names unidecode) all_dfs
      in map add_missing_columns all_dfs)"

text \<open>
  \<open>pd.concat([df[common_columns] for df in all_dfs], ignore_index=True)\<close>: the
  projections are built first, in list order, and the first one that raises ends the call.
\<close>

definition concat_projected :: "string list \<Rightarrow> table list \<Rightarrow> error + table" where
  "concat_projected common_columns dfs =
     (case sequence (map (project common_columns) dfs) of
        Inl e \<Rightarrow> Inl e
      | Inr projected \<Rightarrow> pd_concat projected)"

definition process_and_clean_data ::
  "(string \<Rightarrow> string) \<Rightarrow> table \<Rightarrow> table list \<Rightarrow> error + string list \<Rightarrow> error + (table \<times> table list)" where
  "process_and_clean_data unidecode df_without_headers dfs_with_headers common =
     (let all_dfs = normalized_tables unidecode df_without_headers dfs_with_headers
      in case common of
           Inl e \<Rightarrow> Inl e
         | Inr common_columns \<Rightarrow>
             (case concat_projected common_columns all_dfs of
                Inl e \<Rightarrow> Inl e
              | Inr df_final \<Rightarrow> Inr (df_final, all_dfs)))"

text \<open>
  The content of a table without regard to the position of rows and of columns: the
  multiset of its rows, each row read as the assignment of cells to labels.
\<close>

definition labelled_rows :: "table \<Rightarrow> (string \<rightharpoonup> cell) multiset" where
  "labelled_rows df = image_mset (\<lambda>r. map_of (zip (columns df) r)) (mset (rows df))"

text \<open>
  \<open>validate_data\<close> reads the two row counts, prints one line and returns the comparison.
  The state holds the tables it is given and the lines printed so far.
\<close>

record pipeline_state =
  all_dfs :: "table list"
  df_final :: "table"
  printed :: "message list"

definition validate_data :: "pipeline_state \<Rightarrow> bool \<times> pipeline_state" where
  "validate_data st =
     (let total_rows = sum_list (map shape0 (all_dfs st))
      in if total_rows = shape0 (df_final st)
         then (total_rows = shape0 (df_final st),
               st\<lparr>printed := printed st @ [Line ''No rows were dropped during cleaning'']\<rparr>)
         else (total_rows = shape0 (df_final st),
               st\<lparr>printed := printed st @
                  [Line (''Rows were dropped during cleaning. Original: '' @ str_nat total_rows
                         @ '', Final: '' @ str_nat (shape0 (df_final st)))]\<rparr>))"

section \<open>Numeric coercion\<close>



fun index_of :: "'a \<Rightarrow> 'a list \<Rightarrow> nat option" where
  "index_of x [] = None"
| "index_of x (y # ys) = (if x = y then Some 0 else map_option Suc (index_of x ys))"
















section \<open>Header resolver\<close>

text \<open>
  The file system as \<open>read_headers\<close> sees it: the listing of a directory, in the order the
  system gives it, and the first column of the sheet that the spreadsheet reader returns for
  a path. Either call can raise.
\<close>

record header_env =
  listdir :: "string \<Rightarrow> error + string list"
  read_excel :: "string \<Rightarrow> error + string list"

definition os_path_join :: "string \<Rightarrow> string \<Rightarrow> string" where
  "os_path_join a b =
     (if b \<noteq> [] \<and> hd b = CHR ''/'' then b
      else if a = [] \<or> last a = CHR ''/'' then a @ b
      else a @ ''/'' @ b)"

definition dia_numero :: string where
  "dia_numero = ''D'' @ i_acute @ ''a Numero''"

definition list_insert :: "'a list \<Rightarrow> nat \<Rightarrow> 'a \<Rightarrow> 'a list" where
  "list_insert xs i x = take i xs @ [x] @ drop i xs"

definition read_headers :: "header_env \<Rightarrow> string \<Rightarrow> error + string list" where
  "read_headers env base_dir =
     (let dict_folder = os_path_join base_dir ''data-dictionary''
      in case listdir env dict_folder of
           Inl e \<Rightarrow> Inl e
         | Inr fs \<Rightarrow>
             (case filter (prefix ''diccionario-percances-viales-axa'') fs of
                [] \<Rightarrow> Inl IndexError
              | dict_file # others \<Rightarrow>
                  (case read_excel env (os_path_join dict_folder dict_file) of
                     Inl e \<Rightarrow> Inl e
                   | Inr headers \<Rightarrow>
                       (case index_of ''Mes Reporte'' headers of
                          None \<Rightarrow> Inl ValueError
                        | Some i \<Rightarrow> Inr (list_insert headers (i + 1) dia_numero)))))"

section \<open>Exporter\<close>

text \<open>
  The outside world of \<open>export_dataframe\<close>: creating the parent directory of a path may raise, and a
  writer, given the format, the path, the merged options and the frame, either succeeds or
  raises an exception with a text. The function returns normally or lets an error through,
  and prints.
\<close>

datatype optval = OStr string | OBool bool

text \<open>
  \<open>str(Path(file_path))\<close> on a POSIX system: empty components and components \<open>.\<close> are
  dropped, one leading slash or exactly two are kept, and a path with nothing left is \<open>.\<close>.
\<close>

fun split_on :: "char \<Rightarrow> string \<Rightarrow> string list" where
  "split_on sep [] = [[]]"
| "split_on sep (c # cs) =
     (if c = sep then [] # split_on sep cs
      else (case split_on sep cs of [] \<Rightarrow> [[c]] | p # ps \<Rightarrow> (c # p) # ps))"

fun join_with :: "string \<Rightarrow> string list \<Rightarrow> string" where
  "join_with sep [] = []"
| "join_with sep [p] = p"
| "join_with sep (p # q # ps) = p @ sep @ join_with sep (q # ps)"

definition path_str :: "string \<Rightarrow> string" where
  "path_str s =
     (let parts = filter (\<lambda>p. p \<noteq> [] \<and> p \<noteq> ''.'') (split_on (CHR ''/'') s);
          root = (if prefix ''//'' s \<and> \<not> prefix ''///'' s then ''//''
                  else if prefix ''/'' s then ''/'' else [])
      in if root = [] \<and> parts = [] then ''.'' else root @ join_with ''/'' parts)"

record export_env =
  mkdir_parent :: "string \<Rightarrow> error option"
  write_frame :: "string \<Rightarrow> string \<Rightarrow> (string \<times> optval) list \<Rightarrow> frame \<Rightarrow> string option"

definition default_options :: "(string \<times> (string \<times> optval) list) list" where
  "default_options =
     [(''csv'', [(''separator'', OStr '',''), (''include_header'', OBool True)]),
      (''parquet'', [(''compression'', OStr ''snappy'')]),
      (''json'', [(''pretty'', OBool True)])]"

fun dict_set :: "'k \<Rightarrow> 'v \<Rightarrow> ('k \<times> 'v) list \<Rightarrow> ('k \<times> 'v) list" where
  "dict_set k v [] = [(k, v)]"
| "dict_set k v ((k', v') # d) = (if k' = k then (k', v) # d else (k', v') # dict_set k v d)"

definition dict_update :: "('k \<times> 'v) list \<Rightarrow> ('k \<times> 'v) list \<Rightarrow> ('k \<times> 'v) list" where
  "dict_update d upd = fold (\<lambda>(k, v) acc. dict_set k v acc) upd d"

definition export_dataframe ::
  "export_env \<Rightarrow> frame \<Rightarrow> string \<Rightarrow> string \<Rightarrow> (string \<times> optval) list option
     \<Rightarrow> (error + unit) \<times> message list" where
  "export_dataframe env df file_path0 format options =
     (let file_path = path_str file_path0
      in case mkdir_parent env file_path of
        Some e \<Rightarrow> (Inl e, [])
      | None \<Rightarrow>
          (let export_options = (case map_of default_options format of Some d \<Rightarrow> d | None \<Rightarrow> []);
               export_options = (case options of
                                   None \<Rightarrow> export_options
                                 | Some upd \<Rightarrow> if upd = [] then export_options
                                              else dict_update export_options upd);
               raised = (if format = ''csv'' \<or> format = ''parquet'' \<or> format = ''json''
                         then write_frame env format file_path export_options df
                         else Some (''Unsupported format: '' @ format))
           in case raised of
                None \<Rightarrow> (Inr (), [Line (''DataFrame successfully exported to '' @ file_path)])
              | Some e \<Rightarrow> (Inr (), [Line (''Error exporting DataFrame: '' @ e)])))"

section \<open>Sample inputs\<close>



text \<open>
  Two directory trees for the header resolver: one with the dictionary file, whose first
  column has the month field, and one whose dictionary folder holds no such file; and a
  third whose dictionary lacks the month field.
\<close>

definition dictionary_env :: "string list \<Rightarrow> string list \<Rightarrow> header_env" where
  "dictionary_env files sheet =
     \<lparr>listdir = (\<lambda>d. if d = ''./accident_data/data-dictionary'' then Inr files
                      else Inl FileNotFoundError),
      read_excel = (\<lambda>p. if p = ''./accident_data/data-dictionary/diccionario-percances-viales-axa.xlsx''
                         then Inr sheet else Inl FileNotFoundError)\<rparr>"

definition table_2020 :: table where
  "table_2020 =
     \<lparr>columns = [''Siniestro'', ''Mes Reporte'', ''Ciudad''],
      rows = [[Num (Finite 1), Str ''enero'', Str ''Toluca'']]\<rparr>"

definition table_2015 :: table where
  "table_2015 =
     \<lparr>columns = [''CIUDAD'', ''SINIESTRO'', ''Color''],
      rows = [[Str ''Puebla'', Num (Finite 2), Str ''rojo''], [Str ''Leon'', Num (Finite 3), Str ''azul'']]\<rparr>"

definition sample_damage :: "string option list" where
  "sample_damage =
     [Some ''Bajo'', Some (''Alto da'' @ n_tilde @ ''o total''), Some ''Medio'',
      Some (''Sin da'' @ n_tilde @ ''o''), Some ''desconocido'']"

definition sample_months :: "string option list" where
  "sample_months = [Some ''enero'', Some ''diciembre'', Some ''ENERO'', Some ''xyz'']"

text \<open>An outside world in which the directory can be created and every write succeeds.\<close>

definition quiet_env :: export_env where
  "quiet_env = \<lparr>mkdir_parent = (\<lambda>p. None), write_frame = (\<lambda>f p opts df. None)\<rparr>"

text \<open>The transliteration on ASCII labels, which it leaves as they are.\<close>

definition ascii_unidecode :: "string \<Rightarrow> string" where
  "ascii_unidecode s = s"

text \<open>The two sample tables after normalization, and two listings of their common labels.\<close>

definition norm_2020 :: table where
  "norm_2020 =
     \<lparr>columns = [''siniestro'', ''mes'', ''ciudad_municipio'', ''rol_lesionado'', ''nivel_lesion''],
      rows = [[Num (Finite 1), Str ''enero'', Str ''Toluca'', NaN, NaN]]\<rparr>"

definition norm_2015 :: table where
  "norm_2015 =
     \<lparr>columns = [''ciudad_municipio'', ''siniestro'', ''color'', ''rol_lesionado'', ''nivel_lesion''],
      rows = [[Str ''Puebla'', Num (Finite 2), Str ''rojo'', NaN, NaN],
              [Str ''Leon'', Num (Finite 3), Str ''azul'', NaN, NaN]]\<rparr>"

definition sample_common :: "string list" where
  "sample_common = [''siniestro'', ''ciudad_municipio'', ''rol_lesionado'', ''nivel_lesion'']"

definition sample_common' :: "string list" where
  "sample_common' = [''nivel_lesion'', ''siniestro'', ''rol_lesionado'', ''ciudad_municipio'']"

section \<open>Notions used in the proofs\<close>

text \<open>The projection of a table when every wanted label is present.\<close>

definition projected :: "string list \<Rightarrow> table \<Rightarrow> table" where
  "projected cs df = \<lparr>columns = cs, rows = map (reindex_row (columns df) cs) (rows df)\<rparr>"

text \<open>The rows of a table as assignments restricted to a set of labels.\<close>

definition row_view :: "string set \<Rightarrow> table \<Rightarrow> (string \<rightharpoonup> cell) multiset" where
  "row_view S df =
     image_mset (\<lambda>r c. if c \<in> S then Some (cell_at (columns df) r c) else None) (mset (rows df))"

text \<open>
  Texts in which none of the literals of the damage-level chain occurs, texts that hold a
  byte other than a decimal digit, and the words behind \<open>Alto\<close> in the sample column.
\<close>

definition damage_patterns :: "string list" where
  "damage_patterns =
     [''Bajo'', ''Alto'', ''Medio'', ''Sin '', ''Low'', ''High'', ''Medium'', ''No damage'', ''1'']"

definition damage_free :: "string \<Rightarrow> bool" where
  "damage_free t = list_all (\<lambda>p. \<not> sublist p t) damage_patterns"

definition has_nondigit :: "string \<Rightarrow> bool" where
  "has_nondigit t = list_ex (\<lambda>c. digit_val c = None) t"

definition sample_tail :: string where
  "sample_tail = '' da'' @ n_tilde @ ''o total''"

definition sample_frame :: frame where
  "sample_frame =
     [(''estado'', Utf8 [Some ''Ciudad de Mexico'', Some ''Jalisco'', None, Some ''CIUDAD'', Some ''x'']),
      (''nivel_dano_vehiculo'', Utf8 sample_damage),
      (''siniestro'', Int64 [Some 1, Some 2, Some 3, Some 4, Some 5])]"

text \<open>Texts in which no Spanish and no English month name occurs, and a sample frame.\<close>

definition month_free :: "string \<Rightarrow> bool" where
  "month_free t = list_all (\<lambda>p. \<not> sublist p t) (months_spanish @ months_english)"

definition months_frame :: frame where
  "months_frame =
     [(''siniestro'', Int64 [Some 1, Some 2, Some 3, Some 4]),
      (''mes'', Utf8 sample_months),
      (''estado'', Utf8 [Some ''Jalisco'', None, Some ''CIUDAD'', Some ''x''])]"




section \<open>Translations of the value pipeline\<close>

lemma suffix_match_SomeD:
  "suffix_match prs b = Some (p, r) \<Longrightarrow> (p, r) \<in> set prs \<and> p \<noteq> [] \<and> suffix p b"
  by (induction prs) (auto simp: Let_def split: if_splits option.splits)

lemma replace_scan_clean:
  "list_all (\<lambda>(p, r). \<not> sublist p (buf @ cs)) prs \<Longrightarrow> replace_scan prs buf cs = buf @ cs"
proof (induction cs arbitrary: buf)
  case Nil
  then show ?case by simp
next
  case (Cons c cs)
  have "suffix_match prs (buf @ [c]) = None"
  proof (rule ccontr)
    assume "suffix_match prs (buf @ [c]) \<noteq> None"
    then obtain p r where "suffix_match prs (buf @ [c]) = Some (p, r)" by auto
    then have m: "(p, r) \<in> set prs" and "suffix p (buf @ [c])"
      using suffix_match_SomeD by blast+
    then have "sublist p ((buf @ [c]) @ cs)"
      by (meson suffix_imp_sublist sublist_appendI sublist_order.order.trans prefix_imp_sublist prefixI)
    with m Cons.prems show False by (auto simp: list_all_iff)
  qed
  moreover have "list_all (\<lambda>(p, r). \<not> sublist p ((buf @ [c]) @ cs)) prs"
    using Cons.prems by simp
  ultimately show ?case
    using Cons.IH [of "buf @ [c]"] by simp
qed

lemma replace_scan_set:
  "set (replace_scan prs buf cs) \<subseteq> set buf \<union> set cs \<union> (\<Union>(p, r) \<in> set prs. set r)"
proof (induction cs arbitrary: buf)
  case Nil
  then show ?case by simp
next
  case (Cons c cs)
  show ?case
  proof (cases "suffix_match prs (buf @ [c])")
    case None
    then show ?thesis using Cons [of "buf @ [c]"] by auto
  next
    case (Some pr)
    obtain p r where pr: "pr = (p, r)" by (cases pr)
    with Some have m: "(p, r) \<in> set prs" using suffix_match_SomeD by blast
    have "set (take (length (buf @ [c]) - length p) (buf @ [c])) \<subseteq> set (buf @ [c])"
      by (rule set_take_subset)
    with Some pr m Cons [of "[]"] show ?thesis by auto
  qed
qed

lemma dotstar_clean:
  "\<not> sublist lit s \<Longrightarrow> str_replace_dotstar lit v s = s"
proof (induction s)
  case Nil
  then show ?case by auto
next
  case (Cons c cs)
  then have "\<not> prefix lit (c # cs)" "\<not> sublist lit cs"
    by (auto simp: sublist_Cons_right)
  with Cons show ?case by simp
qed

lemma digits_val_nondigit: "has_nondigit s \<Longrightarrow> digits_val acc s = None"
  by (induction s arbitrary: acc) (auto simp: has_nondigit_def split: option.splits)

lemma damage_freeD:
  assumes "damage_free t"
  shows "list_all (\<lambda>(p, r). \<not> sublist p ([] @ t))
           (zip [''Bajo'', ''Alto'', ''Medio'', ''Sin ''] [''Low'', ''High'', ''Medium'', ''No damage''])"
    and "list_all (\<lambda>(p, r). \<not> sublist p ([] @ t))
           (zip [''Low'', ''High'', ''Medium'', ''No damage''] [''2'', ''4'', ''3'', ''1''])"
    and "\<not> sublist ''No damage'' t" and "\<not> sublist ''1'' t"
  using assms by (simp_all add: damage_free_def damage_patterns_def)

lemma stage1_tail:
  "replace_many [''Bajo'', ''Alto'', ''Medio'', ''Sin ''] [''Low'', ''High'', ''Medium'', ''No damage''] (''Bajo'' @ t)
     = ''Low'' @ replace_many [''Bajo'', ''Alto'', ''Medio'', ''Sin ''] [''Low'', ''High'', ''Medium'', ''No damage''] t"
  "replace_many [''Bajo'', ''Alto'', ''Medio'', ''Sin ''] [''Low'', ''High'', ''Medium'', ''No damage''] (''Alto'' @ t)
     = ''High'' @ replace_many [''Bajo'', ''Alto'', ''Medio'', ''Sin ''] [''Low'', ''High'', ''Medium'', ''No damage''] t"
  "replace_many [''Bajo'', ''Alto'', ''Medio'', ''Sin ''] [''Low'', ''High'', ''Medium'', ''No damage''] (''Medio'' @ t)
     = ''Medium'' @ replace_many [''Bajo'', ''Alto'', ''Medio'', ''Sin ''] [''Low'', ''High'', ''Medium'', ''No damage''] t"
  "replace_many [''Bajo'', ''Alto'', ''Medio'', ''Sin ''] [''Low'', ''High'', ''Medium'', ''No damage''] (''Sin '' @ t)
     = ''No damage'' @ replace_many [''Bajo'', ''Alto'', ''Medio'', ''Sin ''] [''Low'', ''High'', ''Medium'', ''No damage''] t"
  by code_simp+

lemma stage3_tail:
  "replace_many [''Low'', ''High'', ''Medium'', ''No damage''] [''2'', ''4'', ''3'', ''1''] (''Low'' @ t)
     = ''2'' @ replace_many [''Low'', ''High'', ''Medium'', ''No damage''] [''2'', ''4'', ''3'', ''1''] t"
  "replace_many [''Low'', ''High'', ''Medium'', ''No damage''] [''2'', ''4'', ''3'', ''1''] (''High'' @ t)
     = ''4'' @ replace_many [''Low'', ''High'', ''Medium'', ''No damage''] [''2'', ''4'', ''3'', ''1''] t"
  "replace_many [''Low'', ''High'', ''Medium'', ''No damage''] [''2'', ''4'', ''3'', ''1''] (''Medium'' @ t)
     = ''3'' @ replace_many [''Low'', ''High'', ''Medium'', ''No damage''] [''2'', ''4'', ''3'', ''1''] t"
  "replace_many [''Low'', ''High'', ''Medium'', ''No damage''] [''2'', ''4'', ''3'', ''1''] (''No damage'' @ t)
     = ''1'' @ replace_many [''Low'', ''High'', ''Medium'', ''No damage''] [''2'', ''4'', ''3'', ''1''] t"
  by code_simp+

lemma stage2_tail:
  "str_replace_dotstar ''No damage'' ''No damage'' (''Low'' @ t) = ''Low'' @ str_replace_dotstar ''No damage'' ''No damage'' t"
  "str_replace_dotstar ''No damage'' ''No damage'' (''High'' @ t) = ''High'' @ str_replace_dotstar ''No damage'' ''No damage'' t"
  "str_replace_dotstar ''No damage'' ''No damage'' (''Medium'' @ t) = ''Medium'' @ str_replace_dotstar ''No damage'' ''No damage'' t"
  by code_simp+

lemma stage4_tail:
  "str_replace_dotstar ''1'' ''1'' (''2'' @ t) = ''2'' @ str_replace_dotstar ''1'' ''1'' t"
  "str_replace_dotstar ''1'' ''1'' (''4'' @ t) = ''4'' @ str_replace_dotstar ''1'' ''1'' t"
  "str_replace_dotstar ''1'' ''1'' (''3'' @ t) = ''3'' @ str_replace_dotstar ''1'' ''1'' t"
  by code_simp+

lemma free_stages:
  assumes "damage_free t"
  shows "replace_many [''Bajo'', ''Alto'', ''Medio'', ''Sin ''] [''Low'', ''High'', ''Medium'', ''No damage''] t = t"
    and "replace_many [''Low'', ''High'', ''Medium'', ''No damage''] [''2'', ''4'', ''3'', ''1''] t = t"
    and "str_replace_dotstar ''No damage'' ''No damage'' t = t"
    and "str_replace_dotstar ''1'' ''1'' t = t"
  using damage_freeD [OF assms] replace_scan_clean [of "[]" t] dotstar_clean
  by (simp_all add: replace_many_def)

lemma damage_cell_tail:
  assumes "damage_free t"
  shows "damage_cell (Some (''Bajo'' @ t)) = parse_int64 (''2'' @ t)"
    and "damage_cell (Some (''Alto'' @ t)) = parse_int64 (''4'' @ t)"
    and "damage_cell (Some (''Medio'' @ t)) = parse_int64 (''3'' @ t)"
    and "damage_cell (Some t) = parse_int64 t"
  unfolding damage_cell_def cast_int64_def
  by (simp_all only: option.map option.case comp_apply stage1_tail stage2_tail stage3_tail
      stage4_tail free_stages [OF assms])

lemma parse_after_digit:
  "has_nondigit t \<Longrightarrow> parse_int64 (''2'' @ t) = None \<and> parse_int64 (''4'' @ t) = None
     \<and> parse_int64 (''3'' @ t) = None"
  by (simp add: parse_int64_def digit_val_def digits_val_nondigit)

lemma no_newline_in_levels:
  "newline \<notin> (\<Union>(p, r) \<in> set (zip [''Bajo'', ''Alto'', ''Medio'', ''Sin ''] [''Low'', ''High'', ''Medium'', ''No damage'']). set r)"
  by (simp add: newline_def)

lemma stage2_collapse:
  "str_replace_dotstar ''No damage'' ''No damage'' (''No damage'' @ x)
     = ''No damage'' @ dropWhile (\<lambda>c. c \<noteq> newline) x"
  by simp

lemma collapsed_one:
  "cast_int64 (Some (str_replace_dotstar ''1'' ''1''
     (replace_many [''Low'', ''High'', ''Medium'', ''No damage''] [''2'', ''4'', ''3'', ''1''] ''No damage'')))
   = Some 1"
  by code_simp

lemma damage_cell_sin:
  assumes "newline \<notin> set t"
  shows "damage_cell (Some (''Sin '' @ t)) = Some 1"
proof -
  let ?x = "replace_many [''Bajo'', ''Alto'', ''Medio'', ''Sin ''] [''Low'', ''High'', ''Medium'', ''No damage''] t"
  have "set ?x \<subseteq> set [] \<union> set t
      \<union> (\<Union>(p, r) \<in> set (zip [''Bajo'', ''Alto'', ''Medio'', ''Sin ''] [''Low'', ''High'', ''Medium'', ''No damage'']). set r)"
    unfolding replace_many_def by (rule replace_scan_set)
  with assms no_newline_in_levels have "newline \<notin> set ?x" by auto
  then have "dropWhile (\<lambda>c. c \<noteq> newline) ?x = []"
    by auto
  then have "str_replace_dotstar ''No damage'' ''No damage'' (''No damage'' @ ?x) = ''No damage''"
    by (simp only: stage2_collapse append_Nil2)
  then show ?thesis
    unfolding damage_cell_def
    by (simp only: option.map comp_apply stage1_tail collapsed_one)
qed

lemma with_column_map:
  "distinct (map fst f) \<Longrightarrow> map_of f n = Some old \<Longrightarrow>
   with_column n s f = map (\<lambda>(m, x). if m = n then (m, s) else (m, x)) f"
proof (induction f)
  case Nil
  then show ?case by simp
next
  case (Cons a f)
  obtain m x where a: "a = (m, x)" by (cases a)
  show ?case
  proof (cases "m = n")
    case True
    with Cons.prems a have "n \<notin> fst ` set f" by simp
    then have "map (\<lambda>(m, x). if m = n then (m, s) else (m, x)) f = f"
      by (induction f) auto
    with True a show ?thesis by simp
  next
    case False
    with Cons a show ?thesis by simp
  qed
qed

lemma col_str_map_of: "col_str f n = Inr xs \<Longrightarrow> map_of f n = Some (Utf8 xs)"
  by (auto simp: col_str_def split: option.splits series.splits)

lemma damage_cells_sample:
  "map damage_cell sample_damage = [Some 2, None, Some 3, Some 1, None]"
  by code_simp

lemma damage_cells_tokens:
  "map damage_cell [Some ''Bajo'', Some ''Alto'', Some ''Medio'', Some ''Sin ''] = [Some 2, Some 4, Some 3, Some 1]"
  by code_simp


text \<open>
  C1, as the code has it. For every frame with distinct column names whose column
  \<open>nivel_dano_vehiculo\<close> holds text, wherever that column stands: every column keeps its
  place and its content, and the damage column becomes the chain of the four replacements
  and the cast, cell by cell. A null cell stays null. Behind \<open>Bajo\<close>, \<open>Alto\<close> or \<open>Medio\<close> a
  text \<open>t\<close> in which no literal of the chain occurs is not removed: the cast receives \<open>2\<close>,
  \<open>4\<close> or \<open>3\<close> followed by \<open>t\<close>, and gives null as soon as \<open>t\<close> holds a byte that is not a
  digit. A text without any literal of the chain goes to the cast as it is. Behind \<open>Sin \<close>
  everything up to the end of the line is removed and the cell is 1. The bare tokens give
  2, 4, 3, 1, and on the sample column the result is 2, null, 3, 1, null.
\<close>

theorem process_damage_levels_chain:
  assumes names: "distinct (map fst pl_df)"
    and col: "col_str pl_df ''nivel_dano_vehiculo'' = Inr xs"
  shows "process_damage_levels pl_df
      = Inr (map (\<lambda>(name, s). if name = ''nivel_dano_vehiculo''
                              then (name, Int64 (map damage_cell xs)) else (name, s)) pl_df)
    \<and> damage_cell None = None
    \<and> (damage_free t \<longrightarrow>
          damage_cell (Some (''Bajo'' @ t)) = parse_int64 (''2'' @ t)
        \<and> damage_cell (Some (''Alto'' @ t)) = parse_int64 (''4'' @ t)
        \<and> damage_cell (Some (''Medio'' @ t)) = parse_int64 (''3'' @ t)
        \<and> damage_cell (Some t) = parse_int64 t)
    \<and> (damage_free t \<and> has_nondigit t \<longrightarrow>
          damage_cell (Some (''Bajo'' @ t)) = None
        \<and> damage_cell (Some (''Alto'' @ t)) = None
        \<and> damage_cell (Some (''Medio'' @ t)) = None)
    \<and> (newline \<notin> set t \<longrightarrow> damage_cell (Some (''Sin '' @ t)) = Some 1)
    \<and> map damage_cell [Some ''Bajo'', Some ''Alto'', Some ''Medio'', Some ''Sin '']
        = [Some 2, Some 4, Some 3, Some 1]
    \<and> map damage_cell sample_damage = [Some 2, None, Some 3, Some 1, None]"
proof -
  have f: "process_damage_levels pl_df
      = Inr (map (\<lambda>(name, s). if name = ''nivel_dano_vehiculo''
                              then (name, Int64 (map damage_cell xs)) else (name, s)) pl_df)"
    unfolding process_damage_levels_def col
    using with_column_map [OF names col_str_map_of [OF col]] by simp
  have n: "damage_cell None = None"
    by (simp add: damage_cell_def cast_int64_def)
  show ?thesis
    using f n damage_cell_tail [of t] parse_after_digit [of t] damage_cell_sin [of t]
      damage_cells_tokens damage_cells_sample
    by presburger
qed


text \<open>
  C1, witness: a frame with the damage column in second place, holding the sample column,
  and the words behind \<open>Alto\<close> in its second cell.
\<close>

theorem process_damage_levels_chain_witness:
  "distinct (map fst sample_frame)
   \<and> col_str sample_frame ''nivel_dano_vehiculo'' = Inr sample_damage
   \<and> damage_free sample_tail \<and> has_nondigit sample_tail
   \<and> process_damage_levels sample_frame
       = Inr [(''estado'', Utf8 [Some ''Ciudad de Mexico'', Some ''Jalisco'', None, Some ''CIUDAD'', Some ''x'']),
              (''nivel_dano_vehiculo'', Int64 [Some 2, None, Some 3, Some 1, None]),
              (''siniestro'', Int64 [Some 1, Some 2, Some 3, Some 4, Some 5])]
   \<and> damage_cell (Some (''Alto'' @ sample_tail)) = None"
proof -
  have d: "distinct (map fst sample_frame)"
    by (simp add: sample_frame_def)
  have c: "col_str sample_frame ''nivel_dano_vehiculo'' = Inr sample_damage"
    by (simp add: sample_frame_def col_str_def)
  have t: "damage_free sample_tail" by code_simp
  have h: "has_nondigit sample_tail" by code_simp
  note th = process_damage_levels_chain [OF d c, of sample_tail]
  have p: "process_damage_levels sample_frame
       = Inr [(''estado'', Utf8 [Some ''Ciudad de Mexico'', Some ''Jalisco'', None, Some ''CIUDAD'', Some ''x'']),
              (''nivel_dano_vehiculo'', Int64 [Some 2, None, Some 3, Some 1, None]),
              (''siniestro'', Int64 [Some 1, Some 2, Some 3, Some 4, Some 5])]"
    using th [THEN conjunct1] th [THEN conjunct2, THEN conjunct2, THEN conjunct2,
        THEN conjunct2, THEN conjunct2, THEN conjunct2]
    by (simp add: sample_frame_def)
  have a: "damage_cell (Some (''Alto'' @ sample_tail)) = None"
    using th t h by blast
  show ?thesis
    using d c t h p a by blast
qed


text \<open>
  C1, as the claim states it, fails: on the sample column the result is not 2, 4, 3, 1, null.
\<close>

theorem process_damage_levels_sample_differs:
  "process_damage_levels [(''nivel_dano_vehiculo'', Utf8 sample_damage)]
     \<noteq> Inr [(''nivel_dano_vehiculo'', Int64 [Some 2, Some 4, Some 3, Some 1, None])]"
  by (simp add: process_damage_levels_def col_str_def damage_cells_sample)

lemma nth_of_maps:
  "map f xs = map g ys \<Longrightarrow> length ys = length xs \<Longrightarrow> i < length xs \<Longrightarrow> f (xs ! i) = g (ys ! i)"
  by (metis nth_map)

lemma remdups_only_null:
  "remdups (filter (\<lambda>v. v = None) ys) = (if None \<in> set ys then [None] else [])"
  by (induction ys) auto

lemma spanish_tails:
  "map (\<lambda>m. replace_many months_spanish months_english (m @ t)) months_spanish
     = map (\<lambda>e. e @ replace_many months_spanish months_english t) months_english"
  by code_simp

lemma english_tails:
  "map (\<lambda>e. replace_many months_english numbers (e @ t)) months_english
     = map (\<lambda>n. n @ replace_many months_english numbers t) numbers"
  by code_simp

lemma month_lengths:
  "length months_spanish = 12" "length months_english = 12" "length numbers = 12"
  by (simp_all add: months_spanish_def months_english_def numbers_def)

lemma numbers_values: "map parse_int64 numbers = map (\<lambda>n. Some (int n)) [1..<13]"
  by code_simp

lemma month_free_stages:
  assumes "month_free t"
  shows "replace_many months_spanish months_english t = t"
    and "replace_many months_english numbers t = t"
proof -
  from assms have a: "list_all (\<lambda>p. \<not> sublist p t) months_spanish"
    and b: "list_all (\<lambda>p. \<not> sublist p t) months_english"
    by (simp_all add: month_free_def)
  have "list_all (\<lambda>(p, r). \<not> sublist p ([] @ t)) (zip months_spanish months_english)"
    using a by (auto simp: list_all_iff dest: set_zip_leftD)
  then show "replace_many months_spanish months_english t = t"
    unfolding replace_many_def using replace_scan_clean by fastforce
  have "list_all (\<lambda>(p, r). \<not> sublist p ([] @ t)) (zip months_english numbers)"
    using b by (auto simp: list_all_iff dest: set_zip_leftD)
  then show "replace_many months_english numbers t = t"
    unfolding replace_many_def using replace_scan_clean by fastforce
qed

lemma month_cell_text:
  "month_cell (Some s)
     = parse_int64 (replace_many months_english numbers
         (replace_many months_spanish months_english (to_lowercase s)))"
  by (simp add: month_cell_def cast_int64_def)

lemma month_cell_tail:
  assumes i: "i < 12" and l: "to_lowercase s = months_spanish ! i @ t" and f: "month_free t"
  shows "month_cell (Some s) = parse_int64 (numbers ! i @ t)"
proof -
  have "replace_many months_spanish months_english (months_spanish ! i @ t)
      = months_english ! i @ replace_many months_spanish months_english t"
    using nth_of_maps [OF spanish_tails, of i t] i by (simp add: month_lengths)
  moreover have "replace_many months_english numbers (months_english ! i @ t)
      = numbers ! i @ replace_many months_english numbers t"
    using nth_of_maps [OF english_tails, of i t] i by (simp add: month_lengths)
  ultimately show ?thesis
    by (simp only: month_cell_text l month_free_stages [OF f])
qed

lemma month_free_Nil: "month_free []"
  by code_simp

lemma month_cell_name:
  assumes i: "i < 12" and l: "to_lowercase s = months_spanish ! i"
  shows "month_cell (Some s) = Some (int i + 1)"
proof -
  have "month_cell (Some s) = parse_int64 (numbers ! i @ [])"
    using i l by (intro month_cell_tail) (simp_all add: month_free_Nil)
  moreover have "parse_int64 (numbers ! i) = Some (int ([1..<13] ! i))"
    using nth_of_maps [OF numbers_values, of i] i by (simp add: month_lengths)
  ultimately show ?thesis using i by simp
qed

lemma month_cell_other:
  "month_free (to_lowercase s) \<Longrightarrow> month_cell (Some s) = parse_int64 (to_lowercase s)"
  by (simp only: month_cell_text month_free_stages)

lemma months_to_english:
  "map (replace_many months_spanish months_english \<circ> to_lowercase) months_spanish
     = months_english"
  by code_simp

lemma months_to_numbers:
  "map (replace_many months_english numbers) months_english = numbers"
  by code_simp

lemma month_cells_sample:
  "map month_cell sample_months = [Some 1, Some 12, Some 1, None]"
  by code_simp

lemma int64_bounds:
  "parse_int64 ''9223372036854775807'' = Some 9223372036854775807
   \<and> parse_int64 ''9223372036854775808'' = None
   \<and> parse_int64 ''-9223372036854775808'' = Some (- 9223372036854775808)
   \<and> parse_int64 [] = None"
  by code_simp


text \<open>
  C3. For every frame with distinct column names whose column \<open>mes\<close> holds text, wherever
  that column stands: every column keeps its place and its content, the column \<open>mes\<close> becomes
  the translation of its cells, and the heading with a frame of one null is printed exactly
  when a cell ended as null. A null cell stays null. A cell that is month number \<open>i\<close> of the
  Spanish list once lower-cased becomes the integer \<open>i + 1\<close>; followed by a text \<open>t\<close> without
  month names, the cast receives the number text at the same position followed by \<open>t\<close>. A
  cell without any month name goes to the cast lower-cased. Both replacement lists pair
  position with position, the number texts are the decimals of 1 to 12, the cast accepts the
  signed 64-bit range and nothing beyond it, and on the sample column
  \<open>enero, diciembre, ENERO, xyz\<close> the result is 1, 12, 1, null.
\<close>

theorem translate_months_column:
  assumes names: "distinct (map fst pl_df)"
    and col: "col_str pl_df ''mes'' = Inr xs"
  shows "translate_months pl_df
      = Inr (map (\<lambda>(name, s). if name = ''mes'' then (name, Int64 (map month_cell xs))
                              else (name, s)) pl_df,
             if None \<in> set (map month_cell xs)
             then [Line ''Values in 'mes' that couldn't be converted to integers:'',
                   Show [(''mes'', Int64 [None])]]
             else [])
    \<and> month_cell None = None
    \<and> (i < 12 \<and> to_lowercase s = months_spanish ! i \<longrightarrow> month_cell (Some s) = Some (int i + 1))
    \<and> (i < 12 \<and> to_lowercase s = months_spanish ! i @ t \<and> month_free t
          \<longrightarrow> month_cell (Some s) = parse_int64 (numbers ! i @ t))
    \<and> (month_free (to_lowercase s) \<longrightarrow> month_cell (Some s) = parse_int64 (to_lowercase s))
    \<and> map (replace_many months_spanish months_english \<circ> to_lowercase) months_spanish
        = months_english
    \<and> map (replace_many months_english numbers) months_english = numbers
    \<and> map parse_int64 numbers = map (\<lambda>n. Some (int n)) [1..<13]
    \<and> parse_int64 ''9223372036854775807'' = Some 9223372036854775807
    \<and> parse_int64 ''9223372036854775808'' = None
    \<and> parse_int64 ''-9223372036854775808'' = Some (- 9223372036854775808)
    \<and> parse_int64 [] = None
    \<and> map month_cell sample_months = [Some 1, Some 12, Some 1, None]"
proof -
  have f: "translate_months pl_df
      = Inr (map (\<lambda>(name, s). if name = ''mes'' then (name, Int64 (map month_cell xs))
                              else (name, s)) pl_df,
             if None \<in> set (map month_cell xs)
             then [Line ''Values in 'mes' that couldn't be converted to integers:'',
                   Show [(''mes'', Int64 [None])]]
             else [])"
    unfolding translate_months_def col Let_def
    using with_column_map [OF names col_str_map_of [OF col]]
    by (simp add: remdups_only_null)
  have n: "month_cell None = None"
    by (simp add: month_cell_def cast_int64_def)
  show ?thesis
    using f n month_cell_name [of i s] month_cell_tail [of i s t] month_cell_other [of s]
      months_to_english months_to_numbers numbers_values int64_bounds month_cells_sample
    by presburger
qed


text \<open>
  C3, witness: a frame with \<open>mes\<close> in second place holding the sample column, a capitalised
  month name, a month name followed by a year, and a cell that is already a number text.
\<close>

theorem translate_months_column_witness:
  "distinct (map fst months_frame)
   \<and> col_str months_frame ''mes'' = Inr sample_months
   \<and> translate_months months_frame
       = Inr ([(''siniestro'', Int64 [Some 1, Some 2, Some 3, Some 4]),
               (''mes'', Int64 [Some 1, Some 12, Some 1, None]),
               (''estado'', Utf8 [Some ''Jalisco'', None, Some ''CIUDAD'', Some ''x''])],
              [Line ''Values in 'mes' that couldn't be converted to integers:'',
               Show [(''mes'', Int64 [None])]])
   \<and> month_cell (Some ''Diciembre'') = Some 12
   \<and> month_cell (Some ''MARZO de 2020'') = parse_int64 ''3 de 2020''
   \<and> month_cell (Some ''7'') = Some 7"
proof -
  have d: "distinct (map fst months_frame)"
    by (simp add: months_frame_def)
  have c: "col_str months_frame ''mes'' = Inr sample_months"
    by (simp add: months_frame_def col_str_def)
  note th = translate_months_column [OF d c]
  have p: "translate_months months_frame
       = Inr ([(''siniestro'', Int64 [Some 1, Some 2, Some 3, Some 4]),
               (''mes'', Int64 [Some 1, Some 12, Some 1, None]),
               (''estado'', Utf8 [Some ''Jalisco'', None, Some ''CIUDAD'', Some ''x''])],
              [Line ''Values in 'mes' that couldn't be converted to integers:'',
               Show [(''mes'', Int64 [None])]])"
    using th [of 0 "[]" "[]", THEN conjunct1] month_cells_sample
    by (simp add: months_frame_def)
  have l1: "(11::nat) < 12 \<and> to_lowercase ''Diciembre'' = months_spanish ! 11"
    by code_simp
  have a: "month_cell (Some ''Diciembre'') = Some 12"
    using th [of 11 "''Diciembre''" "[]"] l1 by simp
  have l2: "(2::nat) < 12 \<and> to_lowercase ''MARZO de 2020'' = months_spanish ! 2 @ '' de 2020''
      \<and> month_free '' de 2020'' \<and> numbers ! 2 @ '' de 2020'' = ''3 de 2020''"
    by code_simp
  have b: "month_cell (Some ''MARZO de 2020'') = parse_int64 ''3 de 2020''"
    using th [of 2 "''MARZO de 2020''" "'' de 2020''"] l2 by simp
  have l3: "month_free (to_lowercase ''7'') \<and> parse_int64 (to_lowercase ''7'') = Some 7"
    by code_simp
  have e: "month_cell (Some ''7'') = Some 7"
    using th [of 0 "''7''" "[]"] l3 by simp
  show ?thesis
    using d c p a b e by blast
qed

lemma translate_months_head:
  "translate_months ((''mes'', Utf8 xs) # rest)
     = Inr ((''mes'', Int64 (map month_cell xs)) # rest,
            if None \<in> set (map month_cell xs)
            then [Line ''Values in 'mes' that couldn't be converted to integers:'',
                  Show [(''mes'', Int64 [None])]]
            else [])"
  by (simp add: translate_months_def col_str_def Let_def remdups_only_null)

text \<open>
  C8 at the failing input: a column \<open>mes\<close> holding the two texts \<open>xyz\<close> and \<open>abc\<close>. Both end
  as null, and what is printed is the heading and a frame with the single value null: the
  filter and the selection read the column after it was overwritten, so neither source text
  is in the output.
\<close>

theorem translate_months_prints_null_only:
  "translate_months [(''mes'', Utf8 [Some ''xyz'', Some ''abc''])]
     = Inr ([(''mes'', Int64 [None, None])],
            [Line ''Values in 'mes' that couldn't be converted to integers:'',
             Show [(''mes'', Int64 [None])]])"
proof -
  have "map month_cell [Some ''xyz'', Some ''abc''] = [None, None]"
    by code_simp
  then show ?thesis
    by (simp add: translate_months_head)
qed

section \<open>Row-count validation\<close>

text \<open>
  C4. \<open>validate_data\<close> returns whether the sum of the row counts of the given tables equals
  the row count of the unified table. It has no error result: in both cases it returns
  normally, with the tables of the state as they were and exactly one more printed line,
  which on a mismatch carries the two counts.
\<close>

theorem validate_data_diagnostic:
  "fst (validate_data st) = (sum_list (map shape0 (all_dfs st)) = shape0 (df_final st))
   \<and> all_dfs (snd (validate_data st)) = all_dfs st
   \<and> df_final (snd (validate_data st)) = df_final st
   \<and> printed (snd (validate_data st)) =
       printed st @
       [if sum_list (map shape0 (all_dfs st)) = shape0 (df_final st)
        then Line ''No rows were dropped during cleaning''
        else Line (''Rows were dropped during cleaning. Original: ''
                   @ str_nat (sum_list (map shape0 (all_dfs st)))
                   @ '', Final: '' @ str_nat (shape0 (df_final st)))]"
  by (simp add: validate_data_def Let_def)

section \<open>Column normalizer\<close>

text \<open>
  C9. \<open>clean_column_names\<close> changes labels only: the rows of the table, and so every cell
  in its place, are the ones of the input, and the number of labels is the same.
\<close>

theorem clean_column_names_keeps_cells:
  "rows (clean_column_names unidecode df) = rows df
   \<and> length (columns (clean_column_names unidecode df)) = length (columns df)"
  by (simp add: clean_column_names_def Let_def)

section \<open>Exporter\<close>

text \<open>
  C7 at the failing input: the format tag \<open>xml\<close>. The error for the unsupported tag is raised
  inside the \<open>try\<close> block whose handler catches every exception, so the call prints the
  error text and returns normally; nothing reaches the caller.
\<close>

theorem export_dataframe_unsupported_returns:
  "export_dataframe quiet_env df ''out.xml'' ''xml'' None
     = (Inr (), [Line ''Error exporting DataFrame: Unsupported format: xml''])"
  by (simp add: export_dataframe_def quiet_env_def default_options_def Let_def)

section \<open>Numeric coercion\<close>

lemma index_of_first:
  "x \<notin> set pre \<Longrightarrow> index_of x (pre @ x # post) = Some (length pre)"
  by (induction pre) auto

lemma index_of_None: "index_of x xs = None \<longleftrightarrow> x \<notin> set xs"
  by (induction xs) auto


















section \<open>Header resolver\<close>

text \<open>
  C6. When the dictionary folder lists a file with the dictionary prefix and the first
  column read from the first such file holds the month field, \<open>read_headers\<close> returns that
  column with the day-number field, the text \<open>D\<close>, i with acute accent, \<open>a Numero\<close> in
  UTF-8, put directly behind the first month field. When no listed
  file has the prefix the call fails with an index error, when the column lacks the month
  field it fails with a value error, and when the folder cannot be listed that error comes
  through; in none of these cases is a header list returned.
\<close>

theorem read_headers_contract:
  "(listdir env (os_path_join base_dir ''data-dictionary'') = Inr fs
      \<and> filter (prefix ''diccionario-percances-viales-axa'') fs = dict_file # others
      \<and> read_excel env (os_path_join (os_path_join base_dir ''data-dictionary'') dict_file)
          = Inr (pre @ ''Mes Reporte'' # post)
      \<and> ''Mes Reporte'' \<notin> set pre
    \<longrightarrow> read_headers env base_dir = Inr (pre @ ''Mes Reporte'' # (CHR ''D'' # CHR 0xC3 # CHR 0xAD # ''a Numero'') # post))
   \<and> (listdir env (os_path_join base_dir ''data-dictionary'') = Inr fs
      \<and> filter (prefix ''diccionario-percances-viales-axa'') fs = []
    \<longrightarrow> read_headers env base_dir = Inl IndexError)
   \<and> (listdir env (os_path_join base_dir ''data-dictionary'') = Inr fs
      \<and> filter (prefix ''diccionario-percances-viales-axa'') fs = dict_file # others
      \<and> read_excel env (os_path_join (os_path_join base_dir ''data-dictionary'') dict_file)
          = Inr headers
      \<and> ''Mes Reporte'' \<notin> set headers
    \<longrightarrow> read_headers env base_dir = Inl ValueError)
   \<and> (listdir env (os_path_join base_dir ''data-dictionary'') = Inl e
    \<longrightarrow> read_headers env base_dir = Inl e)"
proof (intro conjI impI)
  assume a: "listdir env (os_path_join base_dir ''data-dictionary'') = Inr fs
      \<and> filter (prefix ''diccionario-percances-viales-axa'') fs = dict_file # others
      \<and> read_excel env (os_path_join (os_path_join base_dir ''data-dictionary'') dict_file)
          = Inr (pre @ ''Mes Reporte'' # post)
      \<and> ''Mes Reporte'' \<notin> set pre"
  then have "index_of ''Mes Reporte'' (pre @ ''Mes Reporte'' # post) = Some (length pre)"
    by (simp add: index_of_first)
  with a show "read_headers env base_dir = Inr (pre @ ''Mes Reporte'' # (CHR ''D'' # CHR 0xC3 # CHR 0xAD # ''a Numero'') # post)"
    by (simp add: read_headers_def Let_def list_insert_def dia_numero_def i_acute_def)
next
  assume "listdir env (os_path_join base_dir ''data-dictionary'') = Inr fs
      \<and> filter (prefix ''diccionario-percances-viales-axa'') fs = []"
  then show "read_headers env base_dir = Inl IndexError"
    by (simp add: read_headers_def Let_def)
next
  assume a: "listdir env (os_path_join base_dir ''data-dictionary'') = Inr fs
      \<and> filter (prefix ''diccionario-percances-viales-axa'') fs = dict_file # others
      \<and> read_excel env (os_path_join (os_path_join base_dir ''data-dictionary'') dict_file)
          = Inr headers
      \<and> ''Mes Reporte'' \<notin> set headers"
  then have "index_of ''Mes Reporte'' headers = None"
    by (simp add: index_of_None)
  with a show "read_headers env base_dir = Inl ValueError"
    by (simp add: read_headers_def Let_def)
next
  assume "listdir env (os_path_join base_dir ''data-dictionary'') = Inl e"
  then show "read_headers env base_dir = Inl e"
    by (simp add: read_headers_def Let_def)
qed

text \<open>
  C6, witness: a folder with the dictionary, whose column is \<open>Siniestro, Mes Reporte, Hora\<close>;
  a folder without the dictionary; a dictionary without the month field; a missing folder.
\<close>

theorem read_headers_contract_witness:
  "read_headers
      (dictionary_env [''notas.txt'', ''diccionario-percances-viales-axa.xlsx'']
         [''Siniestro'', ''Mes Reporte'', ''Hora''])
      ''./accident_data''
     = Inr [''Siniestro'', ''Mes Reporte'', CHR ''D'' # CHR 0xC3 # CHR 0xAD # ''a Numero'',
            ''Hora'']
   \<and> read_headers (dictionary_env [''notas.txt''] [''Siniestro'', ''Mes Reporte'', ''Hora''])
        ''./accident_data''
     = Inl IndexError
   \<and> read_headers
        (dictionary_env [''diccionario-percances-viales-axa.xlsx''] [''Siniestro'', ''Hora''])
        ''./accident_data''
     = Inl ValueError
   \<and> read_headers (dictionary_env [] []) ''./elsewhere'' = Inl FileNotFoundError"
  using
    read_headers_contract
      [of "dictionary_env [''notas.txt'', ''diccionario-percances-viales-axa.xlsx'']
             [''Siniestro'', ''Mes Reporte'', ''Hora'']"
          "''./accident_data''" "[''notas.txt'', ''diccionario-percances-viales-axa.xlsx'']"
          "''diccionario-percances-viales-axa.xlsx''" "[]" "[''Siniestro'']" "[''Hora'']"
          "[]" FileNotFoundError]
    read_headers_contract
      [of "dictionary_env [''notas.txt''] [''Siniestro'', ''Mes Reporte'', ''Hora'']"
          "''./accident_data''" "[''notas.txt'']" "[]" "[]" "[]" "[]" "[]" FileNotFoundError]
    read_headers_contract
      [of "dictionary_env [''diccionario-percances-viales-axa.xlsx''] [''Siniestro'', ''Hora'']"
          "''./accident_data''" "[''diccionario-percances-viales-axa.xlsx'']"
          "''diccionario-percances-viales-axa.xlsx''" "[]" "[]" "[]" "[''Siniestro'', ''Hora'']"
          FileNotFoundError]
    read_headers_contract
      [of "dictionary_env [] []" "''./elsewhere''" "[]" "[]" "[]" "[]" "[]" "[]"
          FileNotFoundError]
  by (simp add: dictionary_env_def os_path_join_def)

section \<open>Schema reconciler\<close>

lemma reindex_row_same:
  assumes "distinct cs" "length r = length cs"
  shows "reindex_row cs cs r = r"
proof (rule nth_equalityI)
  show "length (reindex_row cs cs r) = length r"
    using assms by (simp add: reindex_row_def)
next
  fix i assume "i < length (reindex_row cs cs r)"
  then have i: "i < length cs" by (simp add: reindex_row_def)
  with assms have "map_of (zip cs r) (cs ! i) = Some (r ! i)"
    by (simp add: map_of_zip_nth)
  with i show "reindex_row cs cs r ! i = r ! i"
    by (simp add: reindex_row_def cell_at_def)
qed

lemma union_labels_append:
  "distinct cs \<Longrightarrow> set acc \<inter> set cs = {} \<Longrightarrow> union_labels acc cs = acc @ cs"
  by (induction cs arbitrary: acc) auto

lemma union_labels_absorb:
  "set cs \<subseteq> set acc \<Longrightarrow> union_labels acc cs = acc"
  by (induction cs arbitrary: acc) auto

lemma fold_union_same:
  "list_all (\<lambda>df. columns df = cs) frames \<Longrightarrow>
   fold (\<lambda>df acc. union_labels acc (columns df)) frames cs = cs"
  by (induction frames) (auto simp: union_labels_absorb)

lemma fold_union_first:
  assumes "distinct cs" "frames \<noteq> []" "list_all (\<lambda>df. columns df = cs) frames"
  shows "fold (\<lambda>df acc. union_labels acc (columns df)) frames [] = cs"
proof -
  from assms obtain f fs where fr: "frames = f # fs" by (cases frames) auto
  with assms have "union_labels [] (columns f) = cs"
    using union_labels_append [of cs "[]"] by simp
  with fr assms show ?thesis
    by (simp add: fold_union_same)
qed

lemma sequence_project:
  "list_all (\<lambda>df. set cs \<subseteq> set (columns df)) dfs \<Longrightarrow>
   sequence (map (project cs) dfs) = Inr (map (projected cs) dfs)"
  by (induction dfs) (auto simp: project_def projected_def)

lemma pd_concat_same:
  assumes "distinct cs" "frames \<noteq> []" "list_all (\<lambda>df. columns df = cs) frames"
    and "list_all (\<lambda>df. list_all (\<lambda>r. length r = length cs) (rows df)) frames"
  shows "pd_concat frames = Inr \<lparr>columns = cs, rows = concat (map rows frames)\<rparr>"
proof -
  have "map (reindex_row (columns df) cs) (rows df) = rows df" if "df \<in> set frames" for df
  proof -
    from that assms have "columns df = cs" "list_all (\<lambda>r. length r = length cs) (rows df)"
      by (auto simp: list_all_iff)
    then show ?thesis
      using assms(1) by (auto simp: list_all_iff reindex_row_same intro: map_idI)
  qed
  then have m: "map (\<lambda>df. map (reindex_row (columns df) cs) (rows df)) frames = map rows frames"
    by (auto intro: map_cong)
  have f: "fold (\<lambda>df acc. union_labels acc (columns df)) frames [] = cs"
    using assms(1-3) by (rule fold_union_first)
  show ?thesis
    unfolding pd_concat_def Let_def f m using assms(2) by simp
qed

lemma concat_projected_eq:
  assumes "distinct cs" "dfs \<noteq> []" "list_all (\<lambda>df. set cs \<subseteq> set (columns df)) dfs"
  shows "concat_projected cs dfs
     = Inr \<lparr>columns = cs,
            rows = concat (map (\<lambda>df. map (reindex_row (columns df) cs) (rows df)) dfs)\<rparr>"
proof -
  have pc: "pd_concat (map (projected cs) dfs)
      = Inr \<lparr>columns = cs, rows = concat (map rows (map (projected cs) dfs))\<rparr>"
    using assms
    by (intro pd_concat_same) (auto simp: list_all_iff projected_def reindex_row_def)
  have m: "map rows (map (projected cs) dfs)
      = map (\<lambda>df. map (reindex_row (columns df) cs) (rows df)) dfs"
    by (simp add: projected_def)
  have s: "sequence (map (project cs) dfs) = Inr (map (projected cs) dfs)"
    using assms(3) by (rule sequence_project)
  show ?thesis
    unfolding concat_projected_def s by (simp only: sum.case pc m)
qed

lemma common_subset:
  "get_common_columns dfs (Inr cs) \<Longrightarrow>
   dfs \<noteq> [] \<and> distinct cs \<and> list_all (\<lambda>df. set cs \<subseteq> set (columns df)) dfs"
  by (auto simp: get_common_columns_def common_column_set_def list_all_iff)

lemma length_concat_rows:
  "length (concat (map (\<lambda>df. map (f df) (rows df)) dfs)) = sum_list (map shape0 dfs)"
  by (induction dfs) (simp_all add: shape0_def)

lemma labelled_reindex:
  "map_of (zip cs (reindex_row cols cs r))
     = (\<lambda>c. if c \<in> set cs then Some (cell_at cols r c) else None)"
  by (simp add: reindex_row_def map_of_zip_map)

lemma labelled_rows_concat:
  "labelled_rows \<lparr>columns = cs,
      rows = concat (map (\<lambda>df. map (reindex_row (columns df) cs) (rows df)) dfs)\<rparr>
    = sum_mset (image_mset (row_view (set cs)) (mset dfs))"
proof (induction dfs)
  case Nil
  then show ?case by (simp add: labelled_rows_def)
next
  case (Cons df dfs)
  have "image_mset (\<lambda>r. map_of (zip cs r)) (mset (map (reindex_row (columns df) cs) (rows df)))
      = row_view (set cs) df"
    by (simp add: row_view_def labelled_reindex multiset.map_comp comp_def)
  with Cons show ?case
    by (simp add: labelled_rows_def)
qed

lemma normalized_sample:
  "normalized_tables ascii_unidecode table_2020 [table_2015] = [norm_2020, norm_2015]"
  by code_simp

lemma wf_sample: "list_all wf_table [norm_2020, norm_2015]"
  by (simp add: wf_table_def norm_2020_def norm_2015_def)

lemma common_sample: "get_common_columns [norm_2020, norm_2015] (Inr sample_common)"
  by (auto simp: get_common_columns_def common_column_set_def norm_2020_def norm_2015_def
      sample_common_def)

lemma common_sample': "get_common_columns [norm_2015, norm_2020] (Inr sample_common')"
  by (auto simp: get_common_columns_def common_column_set_def norm_2020_def norm_2015_def
      sample_common'_def)

text \<open>
  C5. Take per-file tables with distinct labels and one cell per label in each row, any
  reordering of the list, and any listing that \<open>get_common_columns\<close> may return for the one
  order and for the other. The two listings hold the same labels. Projecting and
  concatenating succeeds for both orders; the rows of each result are the projected rows of
  the tables in list order, each table's rows in their own order; and the two results have
  the same multiset of rows, a row being read as the assignment of its cells to the labels.
\<close>

theorem projection_order_independent:
  assumes wf: "list_all wf_table dfs"
    and perm: "mset dfs' = mset dfs"
    and gc: "get_common_columns dfs (Inr cs)"
    and gc': "get_common_columns dfs' (Inr cs')"
  shows "set cs' = set cs
    \<and> (\<exists>u u'. concat_projected cs dfs = Inr u \<and> concat_projected cs' dfs' = Inr u'
          \<and> rows u = concat (map (\<lambda>df. map (reindex_row (columns df) cs) (rows df)) dfs)
          \<and> rows u' = concat (map (\<lambda>df. map (reindex_row (columns df) cs') (rows df)) dfs')
          \<and> labelled_rows u' = labelled_rows u)"
proof -
  let ?u = "\<lparr>columns = cs,
      rows = concat (map (\<lambda>df. map (reindex_row (columns df) cs) (rows df)) dfs)\<rparr>"
  let ?u' = "\<lparr>columns = cs',
      rows = concat (map (\<lambda>df. map (reindex_row (columns df) cs') (rows df)) dfs')\<rparr>"
  from perm have "set dfs' = set dfs" by (rule mset_eq_setD)
  with gc gc' have s: "set cs' = set cs"
    by (simp add: get_common_columns_def common_column_set_def)
  have u: "concat_projected cs dfs = Inr ?u"
    using common_subset [OF gc] by (intro concat_projected_eq) auto
  have u': "concat_projected cs' dfs' = Inr ?u'"
    using common_subset [OF gc'] by (intro concat_projected_eq) auto
  have "labelled_rows ?u' = labelled_rows ?u"
    by (simp only: labelled_rows_concat s perm)
  with s u u' show ?thesis by simp
qed

text \<open>
  C5, witness: the two normalized sample tables in both orders, with two different listings
  of their four common labels.
\<close>

theorem projection_order_independent_witness:
  "list_all wf_table [norm_2020, norm_2015]
   \<and> mset [norm_2015, norm_2020] = mset [norm_2020, norm_2015]
   \<and> get_common_columns [norm_2020, norm_2015] (Inr sample_common)
   \<and> get_common_columns [norm_2015, norm_2020] (Inr sample_common')
   \<and> set sample_common' = set sample_common
   \<and> (\<exists>u u'. concat_projected sample_common [norm_2020, norm_2015] = Inr u
         \<and> concat_projected sample_common' [norm_2015, norm_2020] = Inr u'
         \<and> labelled_rows u' = labelled_rows u)"
proof -
  have p: "mset [norm_2015, norm_2020] = mset [norm_2020, norm_2015]"
    by (simp add: add_mset_commute)
  from projection_order_independent [OF wf_sample p common_sample common_sample']
  show ?thesis
    using wf_sample p common_sample common_sample' by blast
qed

text \<open>
  C10. Let the normalized per-file tables have distinct labels and one cell per label in
  each row, and let \<open>cs\<close> be a listing that \<open>get_common_columns\<close> may return for them (so there
  is at least one table). Then \<open>process_and_clean_data\<close> returns a unified table together
  with those tables, the row count of the unified table is the sum of their row counts, and
  \<open>validate_data\<close> on this output returns true and prints the line that no rows were dropped.
\<close>

theorem unified_row_count:
  assumes tabs: "tabs = normalized_tables unidecode df_without_headers dfs_with_headers"
    and wf: "list_all wf_table tabs"
    and gc: "get_common_columns tabs (Inr cs)"
  shows "\<exists>final.
      process_and_clean_data unidecode df_without_headers dfs_with_headers (Inr cs)
        = Inr (final, tabs)
    \<and> shape0 final = sum_list (map shape0 tabs)
    \<and> validate_data \<lparr>all_dfs = tabs, df_final = final, printed = out\<rparr>
        = (True, \<lparr>all_dfs = tabs, df_final = final,
                  printed = out @ [Line ''No rows were dropped during cleaning'']\<rparr>)"
proof -
  let ?final = "\<lparr>columns = cs,
      rows = concat (map (\<lambda>df. map (reindex_row (columns df) cs) (rows df)) tabs)\<rparr>"
  from gc have c: "tabs \<noteq> []" "distinct cs" "list_all (\<lambda>df. set cs \<subseteq> set (columns df)) tabs"
    using common_subset by blast+
  then have "concat_projected cs tabs = Inr ?final"
    by (intro concat_projected_eq)
  then have p: "process_and_clean_data unidecode df_without_headers dfs_with_headers (Inr cs)
        = Inr (?final, tabs)"
    by (simp add: process_and_clean_data_def Let_def tabs [symmetric])
  have n: "shape0 ?final = sum_list (map shape0 tabs)"
    by (simp add: shape0_def length_concat_rows)
  have v: "validate_data \<lparr>all_dfs = tabs, df_final = ?final, printed = out\<rparr>
        = (True, \<lparr>all_dfs = tabs, df_final = ?final,
                  printed = out @ [Line ''No rows were dropped during cleaning'']\<rparr>)"
    using n by (simp add: validate_data_def Let_def)
  from p n v show ?thesis by blast
qed

text \<open>
  C10, witness: the header-less sample table and one sample table with headers; their
  normalized forms have four common labels and three rows in all.
\<close>

theorem unified_row_count_witness:
  "list_all wf_table (normalized_tables ascii_unidecode table_2020 [table_2015])
   \<and> get_common_columns (normalized_tables ascii_unidecode table_2020 [table_2015])
       (Inr sample_common)
   \<and> (\<exists>final.
        process_and_clean_data ascii_unidecode table_2020 [table_2015] (Inr sample_common)
          = Inr (final, [norm_2020, norm_2015])
      \<and> shape0 final = 3
      \<and> validate_data \<lparr>all_dfs = [norm_2020, norm_2015], df_final = final, printed = []\<rparr>
          = (True, \<lparr>all_dfs = [norm_2020, norm_2015], df_final = final,
                    printed = [Line ''No rows were dropped during cleaning'']\<rparr>))"
proof -
  have n: "[norm_2020, norm_2015] = normalized_tables ascii_unidecode table_2020 [table_2015]"
    by (simp only: normalized_sample)
  have s: "sum_list (map shape0 [norm_2020, norm_2015]) = 3"
    by (simp add: shape0_def norm_2020_def norm_2015_def)
  show ?thesis
    using unified_row_count [OF n wf_sample common_sample, of "[]"] wf_sample common_sample
    by (simp only: normalized_sample s append_Nil simp_thms)
qed

end
